theory Spec2Isabelle
  imports Complex_Main
begin

section \<open>The dairy ledger of app.py\<close>

text \<open>
  The application keeps one table, \<^verbatim>\<open>dairy_entry\<close>, and three request handlers work on
  it: \<^verbatim>\<open>add_dairy_entry\<close> (due carry-forward), \<^verbatim>\<open>clear_dues\<close> (debt settlement) and
  \<^verbatim>\<open>dairy_daily_summary\<close> (daily report).

  Conventions of the embedding.
  \<^item> A \<^verbatim>\<open>datetime.date\<close> is its proleptic Gregorian ordinal (\<^verbatim>\<open>date.toordinal()\<close>), an
    integer between 1 (\<^verbatim>\<open>date.min\<close>) and 3652059 (\<^verbatim>\<open>date.max\<close>); a \<^verbatim>\<open>datetime\<close> is a
    number of microseconds.
  \<^item> The columns of type \<^verbatim>\<open>Float\<close> are taken as exact real numbers: rounding, infinities
    and NaN of IEEE doubles are outside the model.
  \<^item> The table is the list of its rows in storage (rowid) order. A mapped object that a
    query returns and the loop of \<^verbatim>\<open>clear_dues\<close> assigns to is the row itself, so the
    settlement query returns the positions of the rows and the loop updates the table at
    these positions; read-only queries return the rows.
  \<^item> \<^verbatim>\<open>flash(message, category)\<close> appends to the list of flashed messages returned with
    the response; the text of a message is a constructor of \<open>message\<close>.
  \<^item> \<^verbatim>\<open>form.validate_on_submit()\<close> belongs to flask_wtf: a handler receives \<open>None\<close> when
    it is false and the data of the form when it is true.
  \<^item> A date that the code formats with \<^verbatim>\<open>strftime\<close> for a message or for the report is
    kept as the date.
  \<^item> The column \<^verbatim>\<open>id\<close> is the field \<open>entry_id\<close> and the column \<^verbatim>\<open>unit\<close> the field
    \<open>unit_label\<close>; a local variable that has the name of a column is shortened
    (\<open>name\<close> for \<^verbatim>\<open>m_name\<close>, \<open>it\<close> for \<^verbatim>\<open>item\<close>, \<open>rd\<close> for \<^verbatim>\<open>report_date\<close>).
\<close>

subsection \<open>Data model\<close>

type_synonym date = int
type_synonym datetime = int

record DairyEntry =
  entry_id :: nat
  date :: date
  m_name :: string
  item :: string
  weight :: real
  unit_label :: string
  price_per_unit :: real
  cost :: real
  paid :: real
  due :: real
  created_at :: datetime

datatype error = OverflowError | BadRequestKeyError | ValueError

datatype message =
    Entry_added                \<comment> \<open>\<^verbatim>\<open>Dairy entry added successfully!\<close>\<close>
  | No_entries_found date      \<comment> \<open>\<^verbatim>\<open>No Dairy entries found for {date}.\<close>\<close>
  | Summary_generated date     \<comment> \<open>\<^verbatim>\<open>Dairy daily summary generated for {date}.\<close>\<close>
  | Dues_updated string        \<comment> \<open>\<^verbatim>\<open>{m_name}'s dues updated!\<close>\<close>

type_synonym flash = "message \<times> string"

record report_data =
  report_date :: date
  total_cost_dairy :: real
  total_paid_dairy :: real
  total_cash_income :: real
  profit_loss :: real
  total_dues_today :: real

datatype template_arg =
    Str string
  | Form
  | Products "(string \<times> real) list"
  | Report "report_data option"
  | Users "(string \<times> real) list"

datatype response =
    Redirect string
  | Render string "(string \<times> template_arg) list"

datatype request = GET | POST "(string \<times> string) list"

subsection \<open>Due carry-forward: \<^verbatim>\<open>get_previous_dairy_due\<close> and \<^verbatim>\<open>add_dairy_entry\<close>\<close>

text \<open>The data of a validated \<^verbatim>\<open>AddDairyEntryForm\<close> (\<^verbatim>\<open>form.date.data\<close> and so on).\<close>

record AddDairyEntryForm =
  date_data :: date
  m_name_data :: string
  item_data :: string
  weight_data :: real
  unit_data :: string
  price_per_unit_data :: real
  paid_data :: real

definition DAIRY_PRODUCTS :: "(string \<times> real) list" where
  "DAIRY_PRODUCTS =
     [(''Milk (1 Litre)'', 60), (''Curd (500g)'', 45), (''Paneer (200g)'', 80),
      (''Ghee (200ml)'', 150), (''Butter (100g)'', 55), (''Lassi (200ml)'', 30),
      (''Yogurt (100g)'', 25), (''Cream (250ml)'', 70), (''Cheese Slice (100g)'', 75),
      (''Flavored Milk (200ml)'', 35)]"

text \<open>
  \<^verbatim>\<open>d - timedelta(days=n)\<close>: Python raises \<^verbatim>\<open>OverflowError\<close> when the result leaves the
  range of \<^verbatim>\<open>date\<close>.
\<close>

definition date_minus_days :: "date \<Rightarrow> int \<Rightarrow> error + date" where
  "date_minus_days d n =
     (let ordinal = d - n
      in if 1 \<le> ordinal \<and> ordinal \<le> 3652059 then Inr ordinal else Inl OverflowError)"

text \<open>
  \<^verbatim>\<open>query.filter(...).order_by(DairyEntry.created_at.desc()).first()\<close>: among rows of one
  \<^verbatim>\<open>created_at\<close> the first in storage order is taken.
\<close>

definition get_previous_dairy_due ::
  "DairyEntry list \<Rightarrow> date \<Rightarrow> string \<Rightarrow> string \<Rightarrow> error + real" where
  "get_previous_dairy_due db current_date name it =
     (case date_minus_days current_date 1 of
        Inl e \<Rightarrow> Inl e
      | Inr previous_date \<Rightarrow>
          (case sort_key (\<lambda>e. - created_at e)
                  (filter (\<lambda>e. date e = previous_date \<and> m_name e = name \<and> item e = it) db) of
             [] \<Rightarrow> Inr 0
           | prev_entry # _ \<Rightarrow> Inr (due prev_entry)))"

text \<open>
  The key SQLite gives a new row of an \<^verbatim>\<open>INTEGER PRIMARY KEY\<close> table: one more than the
  largest key in use.
\<close>

definition next_id :: "DairyEntry list \<Rightarrow> nat" where
  "next_id db = Suc (fold max (map entry_id db) 0)"

text \<open>
  The handler; \<open>utcnow\<close> is the value of \<^verbatim>\<open>datetime.utcnow()\<close> when the row is inserted
  (the default of \<^verbatim>\<open>created_at\<close>).
\<close>

definition add_dairy_entry ::
  "AddDairyEntryForm option \<Rightarrow> datetime \<Rightarrow> DairyEntry list
     \<Rightarrow> error + DairyEntry list \<times> flash list \<times> response" where
  "add_dairy_entry submitted utcnow db =
     (case submitted of
        None \<Rightarrow>
          Inr (db, [],
               Render ''index.html''
                 [(''current_view'', Str ''add_dairy_entry''), (''form'', Form),
                  (''dairy_products'', Products DAIRY_PRODUCTS)])
      | Some form \<Rightarrow>
          (let entry_cost = price_per_unit_data form * weight_data form in
           case get_previous_dairy_due db (date_data form) (m_name_data form) (item_data form) of
             Inl e \<Rightarrow> Inl e
           | Inr previous_due \<Rightarrow>
               (let current_due = (previous_due + entry_cost) - paid_data form;
                    new_dairy_entry =
                      \<lparr>entry_id = next_id db, date = date_data form,
                       m_name = m_name_data form, item = item_data form,
                       weight = weight_data form, unit_label = unit_data form,
                       price_per_unit = price_per_unit_data form, cost = entry_cost,
                       paid = paid_data form, due = current_due, created_at = utcnow\<rparr>
                in Inr (db @ [new_dairy_entry], [(Entry_added, ''success'')],
                        Redirect ''add_dairy_entry''))))"

subsection \<open>Daily report: \<^verbatim>\<open>dairy_daily_summary\<close>\<close>

record DairyDailyReportForm =
  report_date_data :: date
  total_cash_income_data :: real

text \<open>
  The subquery: one row \<open>(m_name, item, max(created_at))\<close> for each pair of merchant
  and item among the rows of the report date.
\<close>

definition unique_dues_query :: "DairyEntry list \<Rightarrow> date \<Rightarrow> (string \<times> string \<times> datetime) list" where
  "unique_dues_query db rd =
     map (\<lambda>(name, it).
            (name, it,
             Max (set (map created_at
                    (filter (\<lambda>e. date e = rd \<and> m_name e = name \<and> item e = it) db)))))
       (remdups (map (\<lambda>e. (m_name e, item e)) (filter (\<lambda>e. date e = rd) db)))"

text \<open>
  \<^verbatim>\<open>query(func.sum(DairyEntry.due)).join(unique_dues_query, ...).scalar() or 0.0\<close>: the
  join ranges over every row of the table; \<^verbatim>\<open>SUM\<close> of no row is \<^verbatim>\<open>NULL\<close>.
\<close>

definition latest_dues_for_day :: "DairyEntry list \<Rightarrow> date \<Rightarrow> real" where
  "latest_dues_for_day db rd =
     (let joined =
            concat (map (\<lambda>e. map (\<lambda>g. due e)
                               (filter (\<lambda>(name, it, latest_created_at).
                                   m_name e = name \<and> item e = it \<and> created_at e = latest_created_at)
                                  (unique_dues_query db rd))) db);
          scalar = (if joined = [] then None else Some (sum_list joined))
      in case scalar of None \<Rightarrow> 0 | Some sum_due \<Rightarrow> if sum_due = 0 then 0 else sum_due)"

definition dairy_daily_summary ::
  "DairyDailyReportForm option \<Rightarrow> DairyEntry list \<Rightarrow> flash list \<times> response" where
  "dairy_daily_summary submitted db =
     (case submitted of
        None \<Rightarrow>
          ([], Render ''index.html''
                 [(''current_view'', Str ''dairy_daily_summary''), (''form'', Form),
                  (''report_data'', Report None)])
      | Some form \<Rightarrow>
          (let rd = report_date_data form;
               income = total_cash_income_data form;
               daily_dairy_entries = filter (\<lambda>e. date e = rd) db
           in if daily_dairy_entries = [] then
                ([(No_entries_found rd, ''info'')],
                 Render ''index.html''
                   [(''current_view'', Str ''dairy_daily_summary''), (''form'', Form)])
              else
                (let total_cost = sum_list (map cost daily_dairy_entries);
                     total_paid = sum_list (map paid daily_dairy_entries);
                     profit = income - total_cost;
                     report =
                       \<lparr>report_date = rd, total_cost_dairy = total_cost,
                        total_paid_dairy = total_paid, total_cash_income = income,
                        profit_loss = profit, total_dues_today = latest_dues_for_day db rd\<rparr>
                 in ([(Summary_generated rd, ''success'')],
                     Render ''index.html''
                       [(''current_view'', Str ''dairy_daily_summary''), (''form'', Form),
                        (''report_data'', Report (Some report))]))))"

subsection \<open>Debt settlement: \<^verbatim>\<open>clear_dues\<close>\<close>

text \<open>
  \<^verbatim>\<open>DairyEntry.query.filter_by(m_name=m_name).filter(DairyEntry.due > 0)
     .order_by(DairyEntry.date).all()\<close>:
  the rows of the merchant with a positive due, by ascending date; rows of one date stay in
  storage order.
\<close>

definition clear_dues_entries :: "DairyEntry list \<Rightarrow> string \<Rightarrow> nat list" where
  "clear_dues_entries db name =
     sort_key (\<lambda>i. date (db ! i))
       (filter (\<lambda>i. m_name (db ! i) = name \<and> 0 < due (db ! i)) [0..<length db])"

text \<open>
  The loop \<^verbatim>\<open>for entry in entries\<close>, with its \<^verbatim>\<open>break\<close>. It returns the table and the
  value of \<^verbatim>\<open>remaining\<close> when the loop is left.
\<close>

fun clear_dues_loop :: "nat list \<Rightarrow> real \<Rightarrow> DairyEntry list \<Rightarrow> DairyEntry list \<times> real" where
  "clear_dues_loop [] remaining db = (db, remaining)"
| "clear_dues_loop (i # entries) remaining db =
     (if remaining \<le> 0 then (db, remaining)
      else
        let entry = db ! i;
            pay = min (due entry) remaining;
            entry = entry\<lparr>paid := paid entry + pay\<rparr>;
            entry = entry\<lparr>due := due entry - pay\<rparr>
        in clear_dues_loop entries (remaining - pay) (db[i := entry]))"

text \<open>
  The first query of the handler:
  \<^verbatim>\<open>query(m_name, sum(due)).group_by(m_name).having(sum(due) > 0)\<close>.
\<close>

definition users_with_dues :: "DairyEntry list \<Rightarrow> (string \<times> real) list" where
  "users_with_dues db =
     filter (\<lambda>(name, total_due). 0 < total_due)
       (map (\<lambda>name. (name, sum_list (map due (filter (\<lambda>e. m_name e = name) db))))
          (remdups (map m_name db)))"

text \<open>The body of \<^verbatim>\<open>if request.method == 'POST'\<close>, after the two fields are read.\<close>

definition clear_dues_post ::
  "DairyEntry list \<Rightarrow> string \<Rightarrow> real \<Rightarrow> DairyEntry list \<times> flash list \<times> response" where
  "clear_dues_post db name amount_paid =
     (let entries = clear_dues_entries db name;
          remaining = amount_paid;
          (db', remaining) = clear_dues_loop entries remaining db
      in (db', [(Dues_updated name, ''success'')], Redirect ''clear_dues''))"

text \<open>
  The handler. \<^verbatim>\<open>request.form[k]\<close> fails with a \<^verbatim>\<open>BadRequestKeyError\<close> when the field is
  missing; \<^verbatim>\<open>float\<close> is Python's, a parameter here, and fails with a \<^verbatim>\<open>ValueError\<close> on a
  string that is no number.
\<close>

definition clear_dues ::
  "(string \<Rightarrow> real option) \<Rightarrow> request \<Rightarrow> DairyEntry list
     \<Rightarrow> error + DairyEntry list \<times> flash list \<times> response" where
  "clear_dues float req db =
     (let users = users_with_dues db in
      case req of
        GET \<Rightarrow> Inr (db, [], Render ''clear_dues.html'' [(''users_with_dues'', Users users)])
      | POST form \<Rightarrow>
          (case map_of form ''m_name'' of
             None \<Rightarrow> Inl BadRequestKeyError
           | Some name \<Rightarrow>
               (case map_of form ''amount_paid'' of
                  None \<Rightarrow> Inl BadRequestKeyError
                | Some s \<Rightarrow>
                    (case float s of
                       None \<Rightarrow> Inl ValueError
                     | Some amount_paid \<Rightarrow> Inr (clear_dues_post db name amount_paid)))))"

subsection \<open>Notions of the specification\<close>

text \<open>
  One visit of the settlement as the specification words it: with
  \<open>pay = min(entry.due, remaining)\<close>, \<open>entry.paid += pay\<close> and \<open>entry.due -= pay\<close>.
\<close>

definition pay_entry :: "real \<Rightarrow> DairyEntry \<Rightarrow> DairyEntry" where
  "pay_entry remaining entry =
     entry\<lparr>paid := paid entry + min (due entry) remaining,
           due := due entry - min (due entry) remaining\<rparr>"

text \<open>
  The allocator of the specification as a transition system on the entries still to visit,
  the remaining payment and the table: an entry is visited while the remaining payment is
  positive, and the allocator has stopped once the payment is used up or no entry is left.
\<close>

inductive settle_step ::
  "nat list \<times> real \<times> DairyEntry list \<Rightarrow> nat list \<times> real \<times> DairyEntry list \<Rightarrow> bool" where
  visit: "0 < remaining \<Longrightarrow>
     settle_step (i # entries, remaining, db)
       (entries, remaining - min (due (db ! i)) remaining, db[i := pay_entry remaining (db ! i)])"

definition settle_stopped :: "nat list \<times> real \<times> DairyEntry list \<Rightarrow> bool" where
  "settle_stopped st = (case st of (entries, remaining, db) \<Rightarrow> remaining \<le> 0 \<or> entries = [])"


text \<open>
  An entry of the same merchant and item dated exactly one day before the entry that the
  form describes.
\<close>

definition prior_day_entry :: "AddDairyEntryForm \<Rightarrow> DairyEntry \<Rightarrow> bool" where
  "prior_day_entry form e =
     (date e = date_data form - 1 \<and> m_name e = m_name_data form \<and> item e = item_data form)"

text \<open>
  The dues total of the report as the specification words it: for each pair of merchant and
  item present on the report date, the due of the latest-created entry of the pair on that
  date.
\<close>

definition spec_total_dues_today :: "DairyEntry list \<Rightarrow> date \<Rightarrow> real" where
  "spec_total_dues_today db rd =
     (let daily = filter (\<lambda>e. date e = rd) db
      in sum_list
           (map (\<lambda>(name, it).
                   case sort_key (\<lambda>e. - created_at e)
                          (filter (\<lambda>e. m_name e = name \<and> item e = it) daily) of
                     [] \<Rightarrow> 0
                   | latest # _ \<Rightarrow> due latest)
              (remdups (map (\<lambda>e. (m_name e, item e)) daily))))"

subsection \<open>Example tables\<close>

text \<open>
  The ledger of the examples of the specification: merchant A buys milk on 2024-01-01
  (ordinal 738886; cost 60, paid 50, due 10) and on the next day (cost 60, paid 40, due
  30); merchant B owes 40; a later entry of A is overpaid and has a negative due.
\<close>

definition entry_A1 :: DairyEntry where
  "entry_A1 =
     \<lparr>entry_id = 1, date = 738886, m_name = ''A'', item = ''Milk (1 Litre)'', weight = 1,
      unit_label = ''litre'', price_per_unit = 60, cost = 60, paid = 50, due = 10,
      created_at = 1000\<rparr>"

definition entry_A2 :: DairyEntry where
  "entry_A2 =
     \<lparr>entry_id = 2, date = 738887, m_name = ''A'', item = ''Milk (1 Litre)'', weight = 1,
      unit_label = ''litre'', price_per_unit = 60, cost = 60, paid = 40, due = 30,
      created_at = 2000\<rparr>"

definition entry_B1 :: DairyEntry where
  "entry_B1 =
     \<lparr>entry_id = 3, date = 738886, m_name = ''B'', item = ''Curd (500g)'', weight = 1,
      unit_label = ''pcs'', price_per_unit = 45, cost = 45, paid = 5, due = 40,
      created_at = 3000\<rparr>"

definition entry_A3 :: DairyEntry where
  "entry_A3 =
     \<lparr>entry_id = 4, date = 738889, m_name = ''A'', item = ''Milk (1 Litre)'', weight = 1,
      unit_label = ''litre'', price_per_unit = 60, cost = 60, paid = 65, due = - 5,
      created_at = 4000\<rparr>"

definition example_db :: "DairyEntry list" where
  "example_db = [entry_A1, entry_A2, entry_B1, entry_A3]"

text \<open>
  Two rows of one merchant and item with the same \<^verbatim>\<open>created_at\<close> on consecutive dates,
  as \<^verbatim>\<open>add_dairy_entry\<close> stores them when \<^verbatim>\<open>datetime.utcnow()\<close> gives the same value twice,
  and the two forms that create them.
\<close>

definition collision_form_1 :: AddDairyEntryForm where
  "collision_form_1 =
     \<lparr>date_data = 738886, m_name_data = ''A'', item_data = ''Milk (1 Litre)'', weight_data = 1,
      unit_data = ''litre'', price_per_unit_data = 60, paid_data = 55\<rparr>"

definition collision_form_2 :: AddDairyEntryForm where
  "collision_form_2 =
     \<lparr>date_data = 738887, m_name_data = ''A'', item_data = ''Milk (1 Litre)'', weight_data = 1,
      unit_data = ''litre'', price_per_unit_data = 60, paid_data = 58\<rparr>"

definition collision_entry_1 :: DairyEntry where
  "collision_entry_1 =
     \<lparr>entry_id = 1, date = 738886, m_name = ''A'', item = ''Milk (1 Litre)'', weight = 1,
      unit_label = ''litre'', price_per_unit = 60, cost = 60, paid = 55, due = 5,
      created_at = 1000\<rparr>"

definition collision_entry_2 :: DairyEntry where
  "collision_entry_2 =
     \<lparr>entry_id = 2, date = 738887, m_name = ''A'', item = ''Milk (1 Litre)'', weight = 1,
      unit_label = ''litre'', price_per_unit = 60, cost = 60, paid = 58, due = 7,
      created_at = 1000\<rparr>"

definition collision_db :: "DairyEntry list" where
  "collision_db = [collision_entry_1, collision_entry_2]"

text \<open>The forms that create the four entries of the example ledger, and a report request.\<close>

definition form_A1 :: AddDairyEntryForm where
  "form_A1 =
     \<lparr>date_data = 738886, m_name_data = ''A'', item_data = ''Milk (1 Litre)'', weight_data = 1,
      unit_data = ''litre'', price_per_unit_data = 60, paid_data = 50\<rparr>"

definition example_form :: AddDairyEntryForm where
  "example_form =
     \<lparr>date_data = 738887, m_name_data = ''A'', item_data = ''Milk (1 Litre)'', weight_data = 1,
      unit_data = ''litre'', price_per_unit_data = 60, paid_data = 40\<rparr>"

definition form_B1 :: AddDairyEntryForm where
  "form_B1 =
     \<lparr>date_data = 738886, m_name_data = ''B'', item_data = ''Curd (500g)'', weight_data = 1,
      unit_data = ''pcs'', price_per_unit_data = 45, paid_data = 5\<rparr>"

definition form_A3 :: AddDairyEntryForm where
  "form_A3 =
     \<lparr>date_data = 738889, m_name_data = ''A'', item_data = ''Milk (1 Litre)'', weight_data = 1,
      unit_data = ''litre'', price_per_unit_data = 60, paid_data = 65\<rparr>"

definition example_report_form :: DairyDailyReportForm where
  "example_report_form = \<lparr>report_date_data = 738886, total_cash_income_data = 100\<rparr>"

text \<open>Python's \<^verbatim>\<open>float\<close> on the strings of the examples.\<close>

definition example_float :: "string \<Rightarrow> real option" where
  "example_float s =
     (if s = ''25'' then Some 25 else if s = ''50'' then Some 50
      else if s = ''-5'' then Some (- 5) else None)"

section \<open>Properties of the settlement\<close>

subsection \<open>The loop\<close>

lemma clear_dues_loop_not_positive:
  "remaining \<le> 0 \<Longrightarrow> clear_dues_loop entries remaining db = (db, remaining)"
  by (cases entries) simp_all

lemma clear_dues_loop_Cons:
  "clear_dues_loop (i # entries) remaining db =
     (if remaining \<le> 0 then (db, remaining)
      else clear_dues_loop entries (remaining - min (due (db ! i)) remaining)
             (db[i := pay_entry remaining (db ! i)]))"
  by (simp add: Let_def pay_entry_def)

declare clear_dues_loop.simps(2) [simp del]


lemma clear_dues_loop_length:
  "length (fst (clear_dues_loop entries remaining db)) = length db"
  by (induction entries arbitrary: remaining db) (simp_all add: clear_dues_loop_Cons)

lemma clear_dues_loop_other:
  "j \<notin> set entries \<Longrightarrow> fst (clear_dues_loop entries remaining db) ! j = db ! j"
  by (induction entries arbitrary: remaining db) (simp_all add: clear_dues_loop_Cons)

lemma pay_entry_nth_fields:
  "\<exists>p d. db[i := pay_entry remaining (db ! i)] ! j = (db ! j)\<lparr>paid := p, due := d\<rparr>"
proof (cases "j = i \<and> i < length db")
  case True
  then show ?thesis by (auto simp: pay_entry_def)
next
  case False
  then have "db[i := pay_entry remaining (db ! i)] ! j = db ! j"
    by (cases "i < length db") (auto simp: nth_list_update list_update_beyond not_less)
  then have "db[i := pay_entry remaining (db ! i)] ! j
      = (db ! j)\<lparr>paid := paid (db ! j), due := due (db ! j)\<rparr>"
    by simp
  then show ?thesis by blast
qed

lemma clear_dues_loop_fields:
  "fst (clear_dues_loop entries remaining db) ! j =
     (db ! j)\<lparr>paid := paid (fst (clear_dues_loop entries remaining db) ! j),
              due := due (fst (clear_dues_loop entries remaining db) ! j)\<rparr>"
proof (induction entries arbitrary: remaining db)
  case Nil
  show ?case by simp
next
  case (Cons i entries)
  show ?case
  proof (cases "remaining \<le> 0")
    case True
    then show ?thesis by (simp add: clear_dues_loop_Cons)
  next
    case False
    let ?db = "db[i := pay_entry remaining (db ! i)]"
    let ?out = "fst (clear_dues_loop entries (remaining - min (due (db ! i)) remaining) ?db)"
    obtain p d where pd: "?db ! j = (db ! j)\<lparr>paid := p, due := d\<rparr>"
      using pay_entry_nth_fields by blast
    have "?out ! j = (?db ! j)\<lparr>paid := paid (?out ! j), due := due (?out ! j)\<rparr>"
      by (rule Cons.IH)
    also have "\<dots> = (db ! j)\<lparr>paid := paid (?out ! j), due := due (?out ! j)\<rparr>"
      by (simp add: pd)
    finally show ?thesis using False by (simp add: clear_dues_loop_Cons)
  qed
qed




subsection \<open>The settlement query\<close>

lemma set_clear_dues_entries:
  "set (clear_dues_entries db name)
     = {i. i < length db \<and> m_name (db ! i) = name \<and> 0 < due (db ! i)}"
  by (auto simp: clear_dues_entries_def)

lemma distinct_clear_dues_entries: "distinct (clear_dues_entries db name)"
  by (simp add: clear_dues_entries_def)

lemma sorted_clear_dues_entries:
  "sorted (map (\<lambda>i. date (db ! i)) (clear_dues_entries db name))"
  by (simp add: clear_dues_entries_def)



lemma fst_clear_dues_post:
  "fst (clear_dues_post db name amount_paid)
     = fst (clear_dues_loop (clear_dues_entries db name) amount_paid db)"
  by (simp add: clear_dues_post_def Let_def split: prod.splits)


lemma clear_dues_POST:
  "map_of form ''m_name'' = Some name \<Longrightarrow> map_of form ''amount_paid'' = Some s \<Longrightarrow>
   float s = Some amount_paid \<Longrightarrow>
   clear_dues float (POST form) db = Inr (clear_dues_post db name amount_paid)"
  by (simp add: clear_dues_def)

subsection \<open>Totals over the visited entries\<close>










subsection \<open>The allocator of the specification\<close>

lemma settle_step_deterministic:
  "settle_step st t \<Longrightarrow> settle_step st u \<Longrightarrow> t = u"
  by (auto elim!: settle_step.cases)

lemma settle_stopped_no_step:
  "settle_stopped st \<Longrightarrow> \<not> settle_step st t"
  by (auto simp: settle_stopped_def elim!: settle_step.cases)

lemma settle_stopped_unique:
  "settle_step\<^sup>*\<^sup>* st t \<Longrightarrow> settle_stopped t \<Longrightarrow> settle_step\<^sup>*\<^sup>* st u \<Longrightarrow> settle_stopped u
     \<Longrightarrow> t = u"
proof (induction rule: converse_rtranclp_induct)
  case base
  then show ?case
    by (auto elim: converse_rtranclpE dest: settle_stopped_no_step)
next
  case (step y z)
  from step.prems(2) show ?case
  proof (cases rule: converse_rtranclpE)
    case base
    with step.hyps(1) step.prems(3) show ?thesis
      by (auto dest: settle_stopped_no_step)
  next
    case (step w)
    with \<open>settle_step y z\<close> have "w = z" by (auto dest: settle_step_deterministic)
    with step show ?thesis using step.IH step.prems by blast
  qed
qed

lemma clear_dues_loop_steps:
  "\<exists>rest. settle_step\<^sup>*\<^sup>* (entries, remaining, db)
             (rest, snd (clear_dues_loop entries remaining db),
              fst (clear_dues_loop entries remaining db)) \<and>
          settle_stopped (rest, snd (clear_dues_loop entries remaining db),
              fst (clear_dues_loop entries remaining db))"
proof (induction entries arbitrary: remaining db)
  case Nil
  have "settle_step\<^sup>*\<^sup>* ([], remaining, db) ([], remaining, db)
      \<and> settle_stopped ([], remaining, db)"
    by (simp add: settle_stopped_def)
  then show ?case by auto
next
  case (Cons i entries)
  show ?case
  proof (cases "remaining \<le> 0")
    case True
    then have "settle_step\<^sup>*\<^sup>* (i # entries, remaining, db) (i # entries, remaining, db)
      \<and> settle_stopped (i # entries, remaining, db)"
      by (simp add: settle_stopped_def)
    with True show ?thesis by (auto simp: clear_dues_loop_not_positive)
  next
    case False
    let ?db = "db[i := pay_entry remaining (db ! i)]"
    let ?r = "remaining - min (due (db ! i)) remaining"
    let ?res = "clear_dues_loop entries ?r ?db"
    from Cons.IH [of ?r ?db] obtain rest where rest:
      "settle_step\<^sup>*\<^sup>* (entries, ?r, ?db) (rest, snd ?res, fst ?res)"
      "settle_stopped (rest, snd ?res, fst ?res)"
      by blast
    from False have "settle_step (i # entries, remaining, db) (entries, ?r, ?db)"
      by (intro settle_step.visit) simp
    from this rest(1) have "settle_step\<^sup>*\<^sup>* (i # entries, remaining, db) (rest, snd ?res, fst ?res)"
      by (rule converse_rtranclp_into_rtranclp)
    moreover have "clear_dues_loop (i # entries) remaining db = ?res"
      using False by (simp add: clear_dues_loop_Cons)
    ultimately show ?thesis using rest(2) by auto
  qed
qed

subsection \<open>The example ledger, evaluated\<close>





section \<open>Claims about the settlement\<close>

text \<open>
  C2. For every merchant and payment, the settlement selects exactly the entries of the
  merchant with a positive due, in ascending order of date, and visits them in that order
  with \<open>pay = min(entry.due, remaining)\<close>, \<open>entry.paid += pay\<close>, \<open>entry.due -= pay\<close> and
  \<open>remaining -= pay\<close>, stopping as soon as the remaining payment is not positive or no
  entry is left: the table and the remaining payment the loop returns are those of the
  one stopped state that the allocator of the specification reaches from the selection.
\<close>

theorem clear_dues_visits_oldest_first:
  assumes "entries = clear_dues_entries db name"
    and "clear_dues_loop entries amount_paid db = (db', remaining')"
  shows "set entries = {i. i < length db \<and> m_name (db ! i) = name \<and> 0 < due (db ! i)} \<and>
         distinct entries \<and> sorted (map (\<lambda>i. date (db ! i)) entries) \<and>
         fst (clear_dues_post db name amount_paid) = db' \<and>
         (\<exists>rest. settle_step\<^sup>*\<^sup>* (entries, amount_paid, db) (rest, remaining', db') \<and>
                 settle_stopped (rest, remaining', db')) \<and>
         (\<forall>st. settle_step\<^sup>*\<^sup>* (entries, amount_paid, db) st \<and> settle_stopped st
                 \<longrightarrow> snd st = (remaining', db'))"
proof -
  have query: "set entries = {i. i < length db \<and> m_name (db ! i) = name \<and> 0 < due (db ! i)}"
    "distinct entries" "sorted (map (\<lambda>i. date (db ! i)) entries)"
    unfolding assms(1)
    by (rule set_clear_dues_entries distinct_clear_dues_entries sorted_clear_dues_entries)+
  have post: "fst (clear_dues_post db name amount_paid) = db'"
    using assms by (simp add: fst_clear_dues_post)
  from clear_dues_loop_steps [of entries amount_paid db] obtain rest where rest:
    "settle_step\<^sup>*\<^sup>* (entries, amount_paid, db) (rest, remaining', db')"
    "settle_stopped (rest, remaining', db')"
    by (auto simp: assms(2))
  have "snd st = (remaining', db')"
    if "settle_step\<^sup>*\<^sup>* (entries, amount_paid, db) st" "settle_stopped st" for st
    using settle_stopped_unique [OF that rest] by simp
  with query post rest show ?thesis by blast
qed

theorem clear_dues_visits_oldest_first_witness:
  "set (clear_dues_entries example_db ''A'')
     = {i. i < length example_db \<and> m_name (example_db ! i) = ''A'' \<and> 0 < due (example_db ! i)} \<and>
   distinct (clear_dues_entries example_db ''A'') \<and>
   sorted (map (\<lambda>i. date (example_db ! i)) (clear_dues_entries example_db ''A'')) \<and>
   fst (clear_dues_post example_db ''A'' 25)
     = fst (clear_dues_loop (clear_dues_entries example_db ''A'') 25 example_db) \<and>
   (\<exists>rest. settle_step\<^sup>*\<^sup>* (clear_dues_entries example_db ''A'', 25, example_db)
       (rest, snd (clear_dues_loop (clear_dues_entries example_db ''A'') 25 example_db),
        fst (clear_dues_loop (clear_dues_entries example_db ''A'') 25 example_db)) \<and>
      settle_stopped
       (rest, snd (clear_dues_loop (clear_dues_entries example_db ''A'') 25 example_db),
        fst (clear_dues_loop (clear_dues_entries example_db ''A'') 25 example_db)))"
  using clear_dues_visits_oldest_first [OF refl surjective_pairing, of example_db "''A''" 25]
  by blast











text \<open>
  C9. For every merchant and payment, the settlement changes only the fields paid and due,
  and only of entries of the merchant that had a positive due: every row keeps its other
  fields, a row of another merchant or with a due that is not positive is unchanged, and
  the table keeps its rows (none is created or deleted).
\<close>

theorem clear_dues_frame:
  assumes "db' = fst (clear_dues_post db name amount_paid)"
  shows "length db' = length db \<and>
         (\<forall>i<length db.
            db' ! i = (db ! i)\<lparr>paid := paid (db' ! i), due := due (db' ! i)\<rparr> \<and>
            (\<not> (m_name (db ! i) = name \<and> 0 < due (db ! i)) \<longrightarrow> db' ! i = db ! i))"
proof -
  have db': "db' = fst (clear_dues_loop (clear_dues_entries db name) amount_paid db)"
    using assms by (simp add: fst_clear_dues_post)
  have "length db' = length db"
    unfolding db' by (rule clear_dues_loop_length)
  moreover have "db' ! i = (db ! i)\<lparr>paid := paid (db' ! i), due := due (db' ! i)\<rparr>" for i
    unfolding db' by (rule clear_dues_loop_fields)
  moreover have "db' ! i = db ! i"
    if "i < length db" "\<not> (m_name (db ! i) = name \<and> 0 < due (db ! i))" for i
  proof -
    from that have "i \<notin> set (clear_dues_entries db name)"
      by (simp add: set_clear_dues_entries)
    then show ?thesis unfolding db' by (rule clear_dues_loop_other)
  qed
  ultimately show ?thesis by blast
qed

theorem clear_dues_frame_witness:
  "length (fst (clear_dues_post example_db ''A'' 25)) = length example_db \<and>
   fst (clear_dues_post example_db ''A'' 25) ! 0
     = (example_db ! 0)\<lparr>paid := paid (fst (clear_dues_post example_db ''A'' 25) ! 0),
                          due := due (fst (clear_dues_post example_db ''A'' 25) ! 0)\<rparr> \<and>
   fst (clear_dues_post example_db ''A'' 25) ! 2 = example_db ! 2"
proof -
  note frame = clear_dues_frame [OF refl, of example_db "''A''" 25]
  have len: "0 < length example_db" "2 < length example_db"
    by (simp_all add: example_db_def)
  have other: "\<not> (m_name (example_db ! 2) = ''A'' \<and> 0 < due (example_db ! 2))"
    by (simp add: example_db_def entry_B1_def)
  from frame len other show ?thesis by blast
qed

text \<open>
  C10. For every merchant and every strictly negative payment, the settlement is a silent
  no-op: the loop is left before the first entry is touched, the table (so every paid and
  due) is unchanged, and the handler answers as for any other payment, with no error.
\<close>

theorem clear_dues_negative_payment:
  assumes "map_of form ''m_name'' = Some name"
    and "map_of form ''amount_paid'' = Some s"
    and "float s = Some amount_paid"
    and "amount_paid < 0"
  shows "clear_dues float (POST form) db
           = Inr (db, [(Dues_updated name, ''success'')], Redirect ''clear_dues'') \<and>
         clear_dues_loop (clear_dues_entries db name) amount_paid db = (db, amount_paid)"
proof -
  have loop: "clear_dues_loop (clear_dues_entries db name) amount_paid db = (db, amount_paid)"
    using assms(4) by (simp add: clear_dues_loop_not_positive)
  then have "clear_dues_post db name amount_paid
      = (db, [(Dues_updated name, ''success'')], Redirect ''clear_dues'')"
    by (simp add: clear_dues_post_def)
  with loop show ?thesis using assms(1-3) by (simp add: clear_dues_POST)
qed

theorem clear_dues_negative_payment_witness:
  "map_of [(''m_name'', ''A''), (''amount_paid'', ''-5'')] ''m_name'' = Some ''A'' \<and>
   map_of [(''m_name'', ''A''), (''amount_paid'', ''-5'')] ''amount_paid'' = Some ''-5'' \<and>
   example_float ''-5'' = Some (- 5) \<and> (- 5 :: real) < 0 \<and>
   clear_dues example_float (POST [(''m_name'', ''A''), (''amount_paid'', ''-5'')]) example_db
     = Inr (example_db, [(Dues_updated ''A'', ''success'')], Redirect ''clear_dues'') \<and>
   clear_dues_loop (clear_dues_entries example_db ''A'') (- 5) example_db = (example_db, - 5)"
proof -
  have h1: "map_of [(''m_name'', ''A''), (''amount_paid'', ''-5'')] ''m_name'' = Some ''A''"
    by simp
  have h2: "map_of [(''m_name'', ''A''), (''amount_paid'', ''-5'')] ''amount_paid'' = Some ''-5''"
    by simp
  have h3: "example_float ''-5'' = Some (- 5)" by (simp add: example_float_def)
  have h4: "(- 5 :: real) < 0" by simp
  show ?thesis
    using clear_dues_negative_payment
            [where float = example_float and db = example_db, OF h1 h2 h3 h4] h1 h2 h3 h4
    by simp
qed

section \<open>Properties of the carry-forward and of the report\<close>

subsection \<open>The prior-day lookup\<close>

lemma sort_key_head:
  assumes "sort_key f xs = y # ys"
  shows "y \<in> set xs \<and> (\<forall>x\<in>set xs. f y \<le> f x)"
proof -
  have "set (sort_key f xs) = set xs" by simp
  with assms have set: "set xs = insert y (set ys)" by simp
  have "sorted (map f (sort_key f xs))" by simp
  with assms have "\<forall>z\<in>set ys. f y \<le> f z" by simp
  with set show ?thesis by auto
qed

lemma date_minus_days_min: "date_minus_days 1 1 = Inl OverflowError"
  by (simp add: date_minus_days_def)

lemma add_dairy_entry_date_min:
  "date_data form = 1 \<Longrightarrow> add_dairy_entry (Some form) utcnow db = Inl OverflowError"
  by (simp add: add_dairy_entry_def get_previous_dairy_due_def date_minus_days_def)

lemma get_previous_dairy_due_cases:
  assumes "1 < current_date" and "current_date \<le> 3652059"
  shows "\<exists>previous_due. get_previous_dairy_due db current_date name it = Inr previous_due \<and>
     ((\<forall>e\<in>set db. \<not> (date e = current_date - 1 \<and> m_name e = name \<and> item e = it))
        \<longrightarrow> previous_due = 0) \<and>
     ((\<exists>e\<in>set db. date e = current_date - 1 \<and> m_name e = name \<and> item e = it) \<longrightarrow>
        (\<exists>prev\<in>set db. (date prev = current_date - 1 \<and> m_name prev = name \<and> item prev = it) \<and>
           (\<forall>e\<in>set db. date e = current_date - 1 \<and> m_name e = name \<and> item e = it
               \<longrightarrow> created_at e \<le> created_at prev) \<and>
           previous_due = due prev))"
proof -
  let ?P = "\<lambda>e. date e = current_date - 1 \<and> m_name e = name \<and> item e = it"
  let ?q = "sort_key (\<lambda>e. - created_at e) (filter ?P db)"
  have d: "date_minus_days current_date 1 = Inr (current_date - 1)"
    using assms by (simp add: date_minus_days_def)
  show ?thesis
  proof (cases ?q)
    case Nil
    then have "length (filter ?P db) = 0"
      using length_sort [of "\<lambda>e. - created_at e" "filter ?P db"] by simp
    then have none: "\<forall>e\<in>set db. \<not> ?P e" by (simp add: filter_empty_conv)
    have "get_previous_dairy_due db current_date name it = Inr 0"
      using Nil by (simp add: get_previous_dairy_due_def d)
    with none show ?thesis by blast
  next
    case (Cons prev_entry rest)
    from sort_key_head [OF Cons]
    have prev: "prev_entry \<in> set db" "?P prev_entry"
      "\<forall>e\<in>set db. ?P e \<longrightarrow> created_at e \<le> created_at prev_entry"
      by auto
    have "get_previous_dairy_due db current_date name it = Inr (due prev_entry)"
      using Cons by (simp add: get_previous_dairy_due_def d)
    with prev show ?thesis by blast
  qed
qed

text \<open>
  The example of the specification: after the entry of 2024-01-01 with due 10, the entry
  of the next day with cost 60 and paid 40 gets the due 30. The whole example ledger is
  built by four submissions; the last one, two days after the entry before it and overpaid
  by 5, gets the due -5.
\<close>

lemma add_dairy_entry_example:
  "add_dairy_entry (Some example_form) 2000 [entry_A1]
     = Inr ([entry_A1, entry_A2], [(Entry_added, ''success'')], Redirect ''add_dairy_entry'')"
  by (simp add: add_dairy_entry_def get_previous_dairy_due_def date_minus_days_def Let_def
      example_form_def entry_A1_def entry_A2_def next_id_def)

lemma example_db_reachable:
  "add_dairy_entry (Some form_A1) 1000 []
     = Inr ([entry_A1], [(Entry_added, ''success'')], Redirect ''add_dairy_entry'') \<and>
   add_dairy_entry (Some form_B1) 3000 [entry_A1, entry_A2]
     = Inr ([entry_A1, entry_A2, entry_B1], [(Entry_added, ''success'')],
            Redirect ''add_dairy_entry'') \<and>
   add_dairy_entry (Some form_A3) 4000 [entry_A1, entry_A2, entry_B1]
     = Inr (example_db, [(Entry_added, ''success'')], Redirect ''add_dairy_entry'')"
  by (simp add: add_dairy_entry_def get_previous_dairy_due_def date_minus_days_def Let_def
      form_A1_def form_B1_def form_A3_def entry_A1_def entry_A2_def entry_B1_def entry_A3_def
      example_db_def next_id_def)

subsection \<open>The dues total of the report\<close>

lemma sum_list_concat_map:
  "sum_list (concat (map f xs)) = (\<Sum>x\<leftarrow>xs. sum_list (f x :: real list))"
  by (induction xs) simp_all

lemma latest_dues_for_day_sum:
  "latest_dues_for_day db rd =
     (\<Sum>e\<leftarrow>db. \<Sum>g\<leftarrow>unique_dues_query db rd.
        if m_name e = fst g \<and> item e = fst (snd g) \<and> created_at e = snd (snd g)
        then due e else 0)"
proof -
  have inner: "sum_list (map (\<lambda>g. c) (filter P gs)) = (\<Sum>g\<leftarrow>gs. if P g then c else 0)"
    for c :: real and P :: "string \<times> string \<times> datetime \<Rightarrow> bool" and gs
    by (induction gs) simp_all
  have or0: "(case (if js = [] then None else Some (sum_list js)) of
                None \<Rightarrow> 0 | Some sum_due \<Rightarrow> if sum_due = 0 then 0 else sum_due) = sum_list js"
    for js :: "real list"
    by (cases "js = []") simp_all
  have "latest_dues_for_day db rd =
     sum_list (concat (map (\<lambda>e. map (\<lambda>g. due e)
        (filter (\<lambda>(name, it, latest_created_at).
            m_name e = name \<and> item e = it \<and> created_at e = latest_created_at)
           (unique_dues_query db rd))) db))"
    by (simp only: latest_dues_for_day_def Let_def or0)
  also have "\<dots> = (\<Sum>e\<leftarrow>db. sum_list (map (\<lambda>g. due e)
        (filter (\<lambda>(name, it, latest_created_at).
            m_name e = name \<and> item e = it \<and> created_at e = latest_created_at)
           (unique_dues_query db rd))))"
    by (rule sum_list_concat_map)
  also have "\<dots> = (\<Sum>e\<leftarrow>db. \<Sum>g\<leftarrow>unique_dues_query db rd.
        if m_name e = fst g \<and> item e = fst (snd g) \<and> created_at e = snd (snd g)
        then due e else 0)"
    by (simp add: inner case_prod_beta)
  finally show ?thesis .
qed

lemma sum_list_swap:
  "(\<Sum>x\<leftarrow>xs. \<Sum>y\<leftarrow>ys. f x y) = (\<Sum>y\<leftarrow>ys. \<Sum>x\<leftarrow>xs. (f x y :: real))"
proof (induction xs)
  case Nil
  show ?case by simp
next
  case (Cons x xs)
  then show ?case by (simp add: sum_list_addf)
qed

lemma filter_key_single:
  "distinct (map k xs) \<Longrightarrow> x \<in> set xs \<Longrightarrow> filter (\<lambda>e. k e = k x) xs = [x]"
proof (induction xs)
  case Nil
  then show ?case by simp
next
  case (Cons a xs)
  show ?case
  proof (cases "a = x")
    case True
    with Cons.prems(1) have "k x \<notin> k ` set xs" by simp
    then have "\<forall>e\<in>set xs. k e \<noteq> k x" by (metis image_eqI)
    then have "filter (\<lambda>e. k e = k x) xs = []" by (simp add: filter_empty_conv)
    with True show ?thesis by simp
  next
    case False
    with Cons.prems have x: "x \<in> set xs" "k a \<noteq> k x" by auto
    with Cons show ?thesis by simp
  qed
qed

lemma sum_list_if_filter:
  "(\<Sum>e\<leftarrow>xs. if P e then f e else (0::real)) = sum_list (map f (filter P xs))"
  by (induction xs) simp_all

text \<open>
  When no two rows of the table share merchant, item and \<^verbatim>\<open>created_at\<close>, the dues total
  of the report is the one of the specification.
\<close>

lemma latest_dues_for_day_spec:
  assumes "distinct (map (\<lambda>e. (m_name e, item e, created_at e)) db)"
  shows "latest_dues_for_day db rd = spec_total_dues_today db rd"
proof -
  let ?daily = "filter (\<lambda>e. date e = rd) db"
  let ?pairs = "remdups (map (\<lambda>e. (m_name e, item e)) ?daily)"
  let ?grp = "\<lambda>name it. filter (\<lambda>e. date e = rd \<and> m_name e = name \<and> item e = it) db"
  let ?M = "\<lambda>name it. Max (set (map created_at (?grp name it)))"
  let ?code = "\<lambda>(name, it). \<Sum>e\<leftarrow>db.
      if m_name e = name \<and> item e = it \<and> created_at e = ?M name it then due e else 0"
  let ?spec = "\<lambda>(name, it).
      case sort_key (\<lambda>e. - created_at e) (filter (\<lambda>e. m_name e = name \<and> item e = it) ?daily) of
        [] \<Rightarrow> 0 | latest # _ \<Rightarrow> due latest"
  have "latest_dues_for_day db rd =
      (\<Sum>g\<leftarrow>unique_dues_query db rd. \<Sum>e\<leftarrow>db.
        if m_name e = fst g \<and> item e = fst (snd g) \<and> created_at e = snd (snd g)
        then due e else 0)"
    unfolding latest_dues_for_day_sum by (rule sum_list_swap)
  also have "\<dots> = sum_list (map ?code ?pairs)"
    by (simp only: unique_dues_query_def map_map comp_def split_def fst_conv snd_conv)
  also have "map ?code ?pairs = map ?spec ?pairs"
  proof (rule map_cong [OF refl])
    fix p assume p: "p \<in> set ?pairs"
    obtain name it where [simp]: "p = (name, it)" by (cases p)
    have grp: "filter (\<lambda>e. m_name e = name \<and> item e = it) ?daily = ?grp name it"
      by (simp add: conj_commute conj_left_commute)
    from p have "?grp name it \<noteq> []" by (auto simp: filter_empty_conv)
    then have "length (sort_key (\<lambda>e. - created_at e) (?grp name it)) \<noteq> 0"
      by simp
    then have "sort_key (\<lambda>e. - created_at e) (?grp name it) \<noteq> []"
      by (simp only: length_0_conv not_False_eq_True)
    then obtain latest rest where
      sorted: "sort_key (\<lambda>e. - created_at e) (?grp name it) = latest # rest"
      by (cases "sort_key (\<lambda>e. - created_at e) (?grp name it)") auto
    from sort_key_head [OF sorted]
    have latest: "latest \<in> set (?grp name it)"
      "\<forall>x\<in>set (?grp name it). created_at x \<le> created_at latest"
      by auto
    have "?M name it = created_at latest"
      using latest by (intro Max_eqI) auto
    moreover have "filter (\<lambda>e. (m_name e, item e, created_at e)
          = (m_name latest, item latest, created_at latest)) db = [latest]"
      using assms latest(1) by (intro filter_key_single) auto
    moreover have "m_name latest = name" "item latest = it" using latest(1) by auto
    ultimately have "filter (\<lambda>e. m_name e = name \<and> item e = it \<and> created_at e = ?M name it) db
        = [latest]"
      by simp
    then have "?code p = due latest"
      by (simp add: sum_list_if_filter)
    moreover have "?spec p = due latest"
      by (simp add: grp sorted)
    ultimately show "?code p = ?spec p" by simp
  qed
  also have "sum_list (map ?spec ?pairs) = spec_total_dues_today db rd"
    by (simp add: spec_total_dues_today_def Let_def)
  finally show ?thesis .
qed

lemma dairy_daily_summary_report:
  assumes "\<exists>e\<in>set db. date e = report_date_data form"
  shows "dairy_daily_summary (Some form) db
     = ([(Summary_generated (report_date_data form), ''success'')],
        Render ''index.html''
          [(''current_view'', Str ''dairy_daily_summary''), (''form'', Form),
           (''report_data'',
            Report (Some
              \<lparr>report_date = report_date_data form,
               total_cost_dairy
                 = sum_list (map cost (filter (\<lambda>e. date e = report_date_data form) db)),
               total_paid_dairy
                 = sum_list (map paid (filter (\<lambda>e. date e = report_date_data form) db)),
               total_cash_income = total_cash_income_data form,
               profit_loss = total_cash_income_data form
                 - sum_list (map cost (filter (\<lambda>e. date e = report_date_data form) db)),
               total_dues_today = latest_dues_for_day db (report_date_data form)\<rparr>))])"
proof -
  from assms have "filter (\<lambda>e. date e = report_date_data form) db \<noteq> []"
    by (auto simp: filter_empty_conv)
  then show ?thesis by (simp add: dairy_daily_summary_def Let_def)
qed

text \<open>The table of the collision is one the application itself produces.\<close>

lemma collision_db_reachable:
  "add_dairy_entry (Some collision_form_1) 1000 []
     = Inr ([collision_entry_1], [(Entry_added, ''success'')], Redirect ''add_dairy_entry'') \<and>
   add_dairy_entry (Some collision_form_2) 1000 [collision_entry_1]
     = Inr (collision_db, [(Entry_added, ''success'')], Redirect ''add_dairy_entry'')"
  by (simp add: add_dairy_entry_def get_previous_dairy_due_def date_minus_days_def Let_def
      collision_form_1_def collision_form_2_def collision_entry_1_def collision_entry_2_def
      collision_db_def next_id_def)

lemma unique_dues_query_collision:
  "unique_dues_query collision_db 738886 = [(''A'', ''Milk (1 Litre)'', 1000)]"
  by (simp add: unique_dues_query_def collision_db_def collision_entry_1_def
      collision_entry_2_def)

lemma latest_dues_collision: "latest_dues_for_day collision_db 738886 = 12"
  by (simp add: latest_dues_for_day_def unique_dues_query_collision)
     (simp add: collision_db_def collision_entry_1_def collision_entry_2_def)

lemma daily_collision:
  "filter (\<lambda>e. date e = 738886) collision_db = [collision_entry_1]"
  by (simp add: collision_db_def collision_entry_1_def collision_entry_2_def)

section \<open>Claims about the carry-forward and the report\<close>

text \<open>
  C1. For every new entry created for a merchant and item on date \<open>D\<close> with cost \<open>c\<close> and
  paid \<open>p\<close>, the stored due is \<open>prevDue + c - p\<close>, where \<open>prevDue\<close> is the due of an entry
  of the same merchant and item dated exactly \<open>D - 1\<close> with the latest \<^verbatim>\<open>created_at\<close>, and
  \<open>prevDue = 0\<close> when there is no entry on \<open>D - 1\<close> (so after a gap of two days or more the
  due is \<open>c - p\<close>). Every date but \<^verbatim>\<open>date.min\<close>, whose predecessor Python cannot
  represent, creates the entry.
\<close>

theorem add_dairy_entry_due:
  assumes "1 < date_data form" and "date_data form \<le> 3652059"
  shows "\<exists>new. add_dairy_entry (Some form) utcnow db
                  = Inr (db @ [new], [(Entry_added, ''success'')], Redirect ''add_dairy_entry'') \<and>
           date new = date_data form \<and> m_name new = m_name_data form \<and>
           item new = item_data form \<and>
           cost new = price_per_unit_data form * weight_data form \<and>
           paid new = paid_data form \<and>
           ((\<forall>e\<in>set db. \<not> prior_day_entry form e) \<longrightarrow> due new = cost new - paid new) \<and>
           ((\<exists>e\<in>set db. prior_day_entry form e) \<longrightarrow>
              (\<exists>prev\<in>set db. prior_day_entry form prev \<and>
                 (\<forall>e\<in>set db. prior_day_entry form e \<longrightarrow> created_at e \<le> created_at prev) \<and>
                 due new = due prev + cost new - paid new))"
proof -
  from get_previous_dairy_due_cases [OF assms, of db "m_name_data form" "item_data form"]
  obtain previous_due where prev:
    "get_previous_dairy_due db (date_data form) (m_name_data form) (item_data form)
       = Inr previous_due"
    "(\<forall>e\<in>set db. \<not> prior_day_entry form e) \<longrightarrow> previous_due = 0"
    "(\<exists>e\<in>set db. prior_day_entry form e) \<longrightarrow>
        (\<exists>prev\<in>set db. prior_day_entry form prev \<and>
           (\<forall>e\<in>set db. prior_day_entry form e \<longrightarrow> created_at e \<le> created_at prev) \<and>
           previous_due = due prev)"
    unfolding prior_day_entry_def by blast
  let ?cost = "price_per_unit_data form * weight_data form"
  let ?new = "\<lparr>entry_id = next_id db, date = date_data form,
                       m_name = m_name_data form, item = item_data form,
                       weight = weight_data form, unit_label = unit_data form,
                       price_per_unit = price_per_unit_data form, cost = ?cost,
                       paid = paid_data form, due = (previous_due + ?cost) - paid_data form,
                       created_at = utcnow\<rparr>"
  have ret: "add_dairy_entry (Some form) utcnow db
      = Inr (db @ [?new], [(Entry_added, ''success'')], Redirect ''add_dairy_entry'')"
    by (simp add: add_dairy_entry_def prev(1) Let_def)
  have none: "(\<forall>e\<in>set db. \<not> prior_day_entry form e) \<longrightarrow> due ?new = cost ?new - paid ?new"
    using prev(2) by simp
  have some: "(\<exists>e\<in>set db. prior_day_entry form e) \<longrightarrow>
        (\<exists>prev\<in>set db. prior_day_entry form prev \<and>
           (\<forall>e\<in>set db. prior_day_entry form e \<longrightarrow> created_at e \<le> created_at prev) \<and>
           due ?new = due prev + cost ?new - paid ?new)"
    using prev(3) by simp
  have fields: "date ?new = date_data form" "m_name ?new = m_name_data form"
    "item ?new = item_data form" "cost ?new = ?cost" "paid ?new = paid_data form"
    by simp_all
  from ret fields none some show ?thesis by blast
qed

theorem add_dairy_entry_due_witness:
  "1 < date_data example_form \<and> date_data example_form \<le> 3652059 \<and>
   (\<exists>new. add_dairy_entry (Some example_form) 2000 [entry_A1]
             = Inr ([entry_A1] @ [new], [(Entry_added, ''success'')], Redirect ''add_dairy_entry'') \<and>
      date new = date_data example_form \<and> m_name new = m_name_data example_form \<and>
      item new = item_data example_form \<and>
      cost new = price_per_unit_data example_form * weight_data example_form \<and>
      paid new = paid_data example_form \<and>
      ((\<forall>e\<in>set [entry_A1]. \<not> prior_day_entry example_form e)
         \<longrightarrow> due new = cost new - paid new) \<and>
      ((\<exists>e\<in>set [entry_A1]. prior_day_entry example_form e) \<longrightarrow>
         (\<exists>prev\<in>set [entry_A1]. prior_day_entry example_form prev \<and>
            (\<forall>e\<in>set [entry_A1]. prior_day_entry example_form e
                \<longrightarrow> created_at e \<le> created_at prev) \<and>
            due new = due prev + cost new - paid new)))"
proof -
  have h: "1 < date_data example_form" "date_data example_form \<le> 3652059"
    by (simp_all add: example_form_def)
  from add_dairy_entry_due [OF h, of 2000 "[entry_A1]"] h show ?thesis by blast
qed

text \<open>
  C5. For a report date with an entry, the dues total of the report should be the sum,
  over the pairs of merchant and item present on that date, of the due of the
  latest-created entry of the pair on that date. The join of \<^verbatim>\<open>latest_dues_for_day\<close> has no
  condition on the date: on a table where a row of the next day shares merchant, item and
  \<^verbatim>\<open>created_at\<close> with the only row of the report date, the report counts both dues, 12,
  where the specification's total is 5; the application stores these two rows itself when
  the clock gives one value twice (\<open>collision_db_reachable\<close>). (The other three aggregates are as claimed,
  \<open>dairy_daily_summary_report\<close>, and so is the dues total when no two rows share merchant,
  item and \<^verbatim>\<open>created_at\<close>, \<open>latest_dues_for_day_spec\<close>.)
\<close>

theorem dairy_daily_summary_collision:
  "dairy_daily_summary (Some example_report_form) collision_db
     = ([(Summary_generated 738886, ''success'')],
        Render ''index.html''
          [(''current_view'', Str ''dairy_daily_summary''), (''form'', Form),
           (''report_data'',
            Report (Some \<lparr>report_date = 738886, total_cost_dairy = 60, total_paid_dairy = 55,
                          total_cash_income = 100, profit_loss = 40,
                          total_dues_today = 12\<rparr>))]) \<and>
   spec_total_dues_today collision_db 738886 = 5"
  by (simp add: dairy_daily_summary_def latest_dues_collision example_report_form_def
        spec_total_dues_today_def daily_collision)
     (simp add: collision_entry_1_def)

text \<open>
  C6. For every report date with no entry, the summary computes no aggregate: it flashes
  the message of category \<open>info\<close> that no entries were found and renders the page without
  any \<open>report_data\<close>, which differs from every page that carries a summary (one of zeros
  included); nothing is raised.
\<close>

theorem dairy_daily_summary_no_data:
  assumes "\<not> (\<exists>e\<in>set db. date e = report_date_data form)"
  shows "dairy_daily_summary (Some form) db
           = ([(No_entries_found (report_date_data form), ''info'')],
              Render ''index.html''
                [(''current_view'', Str ''dairy_daily_summary''), (''form'', Form)]) \<and>
         map_of [(''current_view'', Str ''dairy_daily_summary''), (''form'', Form)] ''report_data''
           = None \<and>
         (\<forall>report. snd (dairy_daily_summary (Some form) db)
            \<noteq> Render ''index.html''
                 [(''current_view'', Str ''dairy_daily_summary''), (''form'', Form),
                  (''report_data'', Report (Some report))])"
proof -
  from assms have "filter (\<lambda>e. date e = report_date_data form) db = []"
    by (auto simp: filter_empty_conv)
  then show ?thesis by (simp add: dairy_daily_summary_def Let_def)
qed

theorem dairy_daily_summary_no_data_witness:
  "\<not> (\<exists>e\<in>set example_db. date e = report_date_data (example_report_form\<lparr>report_date_data := 738900\<rparr>)) \<and>
   dairy_daily_summary (Some (example_report_form\<lparr>report_date_data := 738900\<rparr>)) example_db
     = ([(No_entries_found 738900, ''info'')],
        Render ''index.html'' [(''current_view'', Str ''dairy_daily_summary''), (''form'', Form)])"
proof -
  have h: "\<not> (\<exists>e\<in>set example_db.
      date e = report_date_data (example_report_form\<lparr>report_date_data := 738900\<rparr>))"
    by (simp add: example_db_def entry_A1_def entry_A2_def entry_B1_def entry_A3_def)
  from dairy_daily_summary_no_data [OF h] h show ?thesis by simp
qed

end
